theory Spec2Isabelle
  imports Complex_Main "HOL-Library.Char_ord" "HOL-Library.List_Lexorder"
    "HOL-Library.Product_Lexorder"
begin

section \<open>Geometry values\<close>

text \<open>
  The repository works on shapely geometries. A coordinate is a pair of numbers (the
  cleaner forces two dimensions before anything else happens); the geometry classes the
  code tests with \<open>isinstance\<close> are the constructors below. A \<open>LinearRing\<close> is, in
  shapely, a subclass of \<open>LineString\<close>. The members of a \<open>MultiPolygon\<close> are polygons;
  a polygon is its exterior ring and the list of its interior rings.
\<close>

type_synonym coord = "real \<times> real"

datatype polygon = Poly (exterior: "coord list") (interiors: "coord list list")

datatype geometry =
    Point "coord option"
  | LineString "coord list"
  | LinearRing "coord list"
  | Polygon polygon
  | MultiPoint "coord list"
  | MultiLineString "coord list list"
  | MultiPolygon "polygon list"
  | GeometryCollection "geometry list"

section \<open>The geometry cleaner: \<open>conversion/clean.py\<close>\<close>

definition sliver_threshold :: real where
  "sliver_threshold = 1 / 10 ^ 10"

text \<open>
  \<open>tweeze\<close>, polygon branch: keep the interior rings whose area as a polygon exceeds
  the threshold and rebuild the polygon from the same exterior. The area of a ring is
  computed by shapely; it is the parameter \<open>area\<close>.
\<close>

definition tweeze_polygon :: "(coord list \<Rightarrow> real) \<Rightarrow> polygon \<Rightarrow> polygon" where
  "tweeze_polygon area p =
     Poly (exterior p) (filter (\<lambda>interior. area interior > sliver_threshold) (interiors p))"

fun tweeze :: "(coord list \<Rightarrow> real) \<Rightarrow> geometry \<Rightarrow> geometry" where
  "tweeze area (Polygon p) = Polygon (tweeze_polygon area p)"
| "tweeze area (MultiPolygon ps) = MultiPolygon (map (tweeze_polygon area) ps)"
| "tweeze area (GeometryCollection gs) = GeometryCollection (map (tweeze area) gs)"
| "tweeze area g = g"

text \<open>The two \<open>isinstance\<close> tests of \<open>lint_roll\<close>.\<close>

fun isinstance_Polygon :: "geometry \<Rightarrow> bool" where
  "isinstance_Polygon (Polygon p) = True"
| "isinstance_Polygon g = False"

fun isinstance_LineString :: "geometry \<Rightarrow> bool" where
  "isinstance_LineString (LineString cs) = True"
| "isinstance_LineString (LinearRing cs) = True"
| "isinstance_LineString g = False"

fun as_polygons :: "geometry list \<Rightarrow> polygon list" where
  "as_polygons [] = []"
| "as_polygons (Polygon p # gs) = p # as_polygons gs"
| "as_polygons (g # gs) = as_polygons gs"

fun lint_roll :: "geometry \<Rightarrow> geometry" where
  "lint_roll (GeometryCollection geoms) =
     (let polygons = filter isinstance_Polygon geoms;
          linestrings = filter isinstance_LineString geoms
      in if polygons \<noteq> [] \<and> linestrings \<noteq> [] then
           (if length polygons > 1 then MultiPolygon (as_polygons polygons)
            else hd polygons)
         else GeometryCollection geoms)"
| "lint_roll g = g"

text \<open>
  The polygons among the members of a collection, in order: what the statement about
  \<open>lint_roll\<close> calls the Polygon members.
\<close>

definition polygon_members :: "geometry list \<Rightarrow> polygon list" where
  "polygon_members gs = concat (map (\<lambda>g. case g of Polygon p \<Rightarrow> [p] | _ \<Rightarrow> []) gs)"

definition has_linestring :: "geometry list \<Rightarrow> bool" where
  "has_linestring gs = (\<exists>g \<in> set gs. isinstance_LineString g)"

section \<open>The routing tables\<close>

text \<open>
  The node table is indexed by node id and carries the point of the node; the edge table
  is indexed by the triple \<open>(u, v, key)\<close> and carries the geometry and the length of
  the edge. Python's integers are unbounded: node ids are \<open>int\<close>.
\<close>

type_synonym edge_index = "int \<times> int \<times> int"

record node_row =
  osmid :: int
  node_x :: real
  node_y :: real
  node_geometry :: geometry

record edge_row =
  edge_index :: edge_index
  edge_geometry :: geometry
  edge_length :: real

definition edge_u :: "edge_row \<Rightarrow> int" where
  "edge_u e = fst (edge_index e)"

definition edge_v :: "edge_row \<Rightarrow> int" where
  "edge_v e = fst (snd (edge_index e))"

definition edge_key :: "edge_row \<Rightarrow> int" where
  "edge_key e = snd (snd (edge_index e))"

section \<open>Renumbering orphaned endpoints: \<open>remap_missing_nodes\<close>\<close>

text \<open>
  \<open>remap_missing_nodes\<close> returns a closure over the counter
  \<open>current_missing_node_id\<close>. The closure is \<open>remap\<close>: it takes the counter and
  returns the new index with the new counter. \<open>u\<close> is looked at before \<open>v\<close>.
\<close>

definition remap :: "int list \<Rightarrow> edge_index \<Rightarrow> int \<Rightarrow> edge_index \<times> int" where
  "remap removed_nodes row current_missing_node_id =
     (case row of (u, v, key) \<Rightarrow>
        let (u', c1) = (if u \<in> set removed_nodes
                        then (current_missing_node_id, current_missing_node_id + 1)
                        else (u, current_missing_node_id));
            (v', c2) = (if v \<in> set removed_nodes then (c1, c1 + 1) else (v, c1))
        in ((u', v', key), c2))"

text \<open>
  \<open>local_edges.index.map(remap_missing_nodes(start, removed))\<close>: the closure is applied
  to the index tuples in table order, the counter living across the calls.
\<close>

fun index_map :: "int list \<Rightarrow> int \<Rightarrow> edge_index list \<Rightarrow> edge_index list" where
  "index_map removed_nodes c [] = []"
| "index_map removed_nodes c (row # rows) =
     (case remap removed_nodes row c of
        (row', c') \<Rightarrow> row' # index_map removed_nodes c' rows)"

definition remap_missing_nodes :: "int \<Rightarrow> int list \<Rightarrow> edge_index list \<Rightarrow> edge_index list" where
  "remap_missing_nodes starting_node_id removed_nodes rows =
     index_map removed_nodes starting_node_id rows"

text \<open>
  The endpoint occurrences of a list of indices, in the order the closure meets them:
  \<open>u\<close> then \<open>v\<close> of the first row, \<open>u\<close> then \<open>v\<close> of the second, and so on.
\<close>

definition endpoints :: "edge_index list \<Rightarrow> int list" where
  "endpoints rows = concat (map (\<lambda>(u, v, key). [u, v]) rows)"


section \<open>Exceptions\<close>

text \<open>
  A Python exception is a value: the built-in and library exceptions are the type
  \<open>exception\<close>. A computation that may raise returns \<open>exception + 'a\<close>, \<open>Inl\<close> for the
  raise. Inside the handler a failure is either the \<open>LambdaException\<close> the handler
  module defines (a status and a message) or one of the others.
\<close>

datatype exception =
    KeyError string
  | IndexError
  | TypeError
  | AttributeError
  | ValueError
  | NotImplementedError
  | JSONDecodeError
  | LibraryError string

datatype failure = LambdaException int string | Uncaught exception

definition lift :: "exception + 'a \<Rightarrow> failure + 'a" where
  "lift r = (case r of Inl e \<Rightarrow> Inl (Uncaught e) | Inr x \<Rightarrow> Inr x)"

section \<open>JSON values and \<open>json.dumps\<close>\<close>

text \<open>
  What \<open>json.loads\<close> returns: \<open>None\<close>, a bool, an int, a float, a string, a list or a
  dict with string keys. A dict keeps the insertion order of its keys, so it is the
  list of its items; the keys of a dict are distinct. Characters are code points below
  256.
\<close>

datatype json =
    JNull
  | JBool bool
  | JInt int
  | JFloat real
  | JStr string
  | JArr "json list"
  | JObj "(string \<times> json) list"

text \<open>Python's truth value of a JSON value.\<close>

fun truthy :: "json \<Rightarrow> bool" where
  "truthy JNull = False"
| "truthy (JBool b) = b"
| "truthy (JInt i) = (i \<noteq> 0)"
| "truthy (JFloat r) = (r \<noteq> 0)"
| "truthy (JStr s) = (s \<noteq> [])"
| "truthy (JArr xs) = (xs \<noteq> [])"
| "truthy (JObj kvs) = (kvs \<noteq> [])"

text \<open>\<open>x[k]\<close> and \<open>x.get(k, default)\<close> for a string \<open>k\<close>.\<close>

fun getitem :: "json \<Rightarrow> string \<Rightarrow> exception + json" where
  "getitem (JObj kvs) k = (case map_of kvs k of None \<Rightarrow> Inl (KeyError k) | Some v \<Rightarrow> Inr v)"
| "getitem j k = Inl TypeError"

fun get_default :: "json \<Rightarrow> string \<Rightarrow> json \<Rightarrow> exception + json" where
  "get_default (JObj kvs) k d = (case map_of kvs k of None \<Rightarrow> Inr d | Some v \<Rightarrow> Inr v)"
| "get_default j k d = Inl AttributeError"

text \<open>
  \<open>json.dumps\<close> with its defaults: items separated by a comma and a space, key and value
  by a colon and a space, keys in the order of the dict (\<open>sort_keys\<close> is off), strings
  escaped to ASCII. The text of a float is Python's \<open>repr\<close>, a parameter.
\<close>

definition hex_digit :: "nat \<Rightarrow> char" where
  "hex_digit n = (if n < 10 then char_of (48 + n) else char_of (87 + n))"

definition escape_char :: "char \<Rightarrow> string" where
  "escape_char c =
     (if c = CHR ''\"'' then [CHR 0x5C, CHR ''\"'']
      else if c = CHR 0x5C then [CHR 0x5C, CHR 0x5C]
      else if c = CHR 0x0A then [CHR 0x5C, CHR ''n'']
      else if c = CHR 0x0D then [CHR 0x5C, CHR ''r'']
      else if c = CHR 0x09 then [CHR 0x5C, CHR ''t'']
      else if c = CHR 0x08 then [CHR 0x5C, CHR ''b'']
      else if c = CHR 0x0C then [CHR 0x5C, CHR ''f'']
      else if (of_char c :: nat) < 32 \<or> (of_char c :: nat) > 126
      then [CHR 0x5C, CHR ''u'', CHR ''0'', CHR ''0'',
            hex_digit ((of_char c :: nat) div 16), hex_digit ((of_char c :: nat) mod 16)]
      else [c])"

definition dumps_string :: "string \<Rightarrow> string" where
  "dumps_string s = [CHR ''\"''] @ concat (map escape_char s) @ [CHR ''\"'']"

fun digits :: "nat \<Rightarrow> string" where
  "digits n = (if n < 10 then [char_of (48 + n)]
               else digits (n div 10) @ [char_of (48 + n mod 10)])"

definition dumps_int :: "int \<Rightarrow> string" where
  "dumps_int i = (if i < 0 then CHR ''-'' # digits (nat (- i)) else digits (nat i))"

fun join_with :: "string \<Rightarrow> string list \<Rightarrow> string" where
  "join_with sep [] = []"
| "join_with sep [x] = x"
| "join_with sep (x # y # ys) = x @ sep @ join_with sep (y # ys)"

fun json_dumps :: "(real \<Rightarrow> string) \<Rightarrow> json \<Rightarrow> string" where
  "json_dumps float_repr JNull = ''null''"
| "json_dumps float_repr (JBool b) = (if b then ''true'' else ''false'')"
| "json_dumps float_repr (JInt i) = dumps_int i"
| "json_dumps float_repr (JFloat r) = float_repr r"
| "json_dumps float_repr (JStr s) = dumps_string s"
| "json_dumps float_repr (JArr xs) =
     ''['' @ join_with '', '' (map (json_dumps float_repr) xs) @ '']''"
| "json_dumps float_repr (JObj kvs) =
     ''{'' @ join_with '', ''
              (map (\<lambda>kv. dumps_string (fst kv) @ '': '' @ json_dumps float_repr (snd kv)) kvs)
          @ ''}''"

section \<open>Reading geometries\<close>

text \<open>
  \<open>is_empty\<close> and \<open>coords\<close> as shapely has them: a geometry is empty when it has no
  coordinates; \<open>coords\<close> exists for points and line strings only and raises
  \<open>NotImplementedError\<close> on polygons and on multi-part geometries.
\<close>

fun is_empty :: "geometry \<Rightarrow> bool" where
  "is_empty (Point None) = True"
| "is_empty (Point (Some c)) = False"
| "is_empty (LineString cs) = (cs = [])"
| "is_empty (LinearRing cs) = (cs = [])"
| "is_empty (Polygon p) = (exterior p = [])"
| "is_empty (MultiPoint cs) = (cs = [])"
| "is_empty (MultiLineString ls) = list_all (\<lambda>l. l = []) ls"
| "is_empty (MultiPolygon ps) = list_all (\<lambda>p. exterior p = []) ps"
| "is_empty (GeometryCollection gs) = list_all is_empty gs"

fun coords :: "geometry \<Rightarrow> exception + coord list" where
  "coords (Point None) = Inr []"
| "coords (Point (Some c)) = Inr [c]"
| "coords (LineString cs) = Inr cs"
| "coords (LinearRing cs) = Inr cs"
| "coords g = Inl NotImplementedError"

text \<open>\<open>g.coords[0]\<close> and \<open>g.coords[-1]\<close>: \<open>IndexError\<close> when there is no coordinate.\<close>

definition coords_first :: "geometry \<Rightarrow> exception + coord" where
  "coords_first g =
     (case coords g of
        Inl e \<Rightarrow> Inl e
      | Inr cs \<Rightarrow> (case cs of [] \<Rightarrow> Inl IndexError | c # _ \<Rightarrow> Inr c))"

definition coords_last :: "geometry \<Rightarrow> exception + coord" where
  "coords_last g =
     (case coords g of
        Inl e \<Rightarrow> Inl e
      | Inr cs \<Rightarrow> (if cs = [] then Inl IndexError else Inr (last cs)))"

section \<open>The graph specializer: the exclusion branch of \<open>handle\<close>\<close>

text \<open>
  The branch \<open>if exclusion_areas:\<close> of \<open>handle\<close>, from the copies of the tables to the
  tables the request's graph is built from. The tables \<open>nodes\<close> and \<open>edges\<close> are read
  from the prepared graph when the module is loaded (\<open>graph_to_gdfs\<close> refuses a graph
  without nodes or edges, and the index of a table read from a graph is unique).
  The library operations are parameters: \<open>difference g E\<close> is shapely's \<open>g - E\<close>, and
  \<open>utm_length g\<close> is the length of \<open>g\<close> in the UTM projection rounded to two decimals.
  The frame that \<open>apply(make_nodes, axis=1)\<close> returns has the column \<open>u_geometry\<close>
  only if \<open>make_nodes\<close> set it in some row, and likewise \<open>v_geometry\<close>; reading a
  column that is not there raises \<open>KeyError\<close>.
\<close>

text \<open>The inner function \<open>make_nodes\<close>: the points of the synthetic endpoints of a row.\<close>

definition make_nodes ::
  "int \<Rightarrow> edge_row \<Rightarrow> exception + (edge_row \<times> geometry option \<times> geometry option)" where
  "make_nodes max_node_id row =
     (case edge_index row of (u, v, _) \<Rightarrow>
        (case (if u > max_node_id then
                 (case coords_first (edge_geometry row) of
                    Inl e \<Rightarrow> Inl e
                  | Inr c \<Rightarrow> Inr (Some (Point (Some c))))
               else Inr None) of
           Inl e \<Rightarrow> Inl e
         | Inr u_geometry \<Rightarrow>
             (case (if v > max_node_id then
                      (case coords_last (edge_geometry row) of
                         Inl e \<Rightarrow> Inl e
                       | Inr c \<Rightarrow> Inr (Some (Point (Some c))))
                    else Inr None) of
                Inl e \<Rightarrow> Inl e
              | Inr v_geometry \<Rightarrow> Inr (row, u_geometry, v_geometry))))"

text \<open>\<open>DataFrame.apply(f, axis=1)\<close>: row by row, the first exception ends it.\<close>

fun apply_rows :: "('a \<Rightarrow> exception + 'b) \<Rightarrow> 'a list \<Rightarrow> exception + 'b list" where
  "apply_rows f [] = Inr []"
| "apply_rows f (r # rs) =
     (case f r of
        Inl e \<Rightarrow> Inl e
      | Inr x \<Rightarrow> (case apply_rows f rs of Inl e \<Rightarrow> Inl e | Inr xs \<Rightarrow> Inr (x # xs)))"

text \<open>\<open>drop_duplicates\<close> on the one column \<open>geometry\<close>: the first row of each value stays.\<close>

fun drop_duplicates :: "(int \<times> geometry) list \<Rightarrow> (int \<times> geometry) list" where
  "drop_duplicates [] = []"
| "drop_duplicates (r # rs) = r # drop_duplicates (filter (\<lambda>r'. snd r' \<noteq> snd r) rs)"

text \<open>A row of \<open>new_nodes\<close>: the id, the point, and \<open>x\<close>, \<open>y\<close> read from the point.\<close>

fun new_node_row :: "int \<times> geometry \<Rightarrow> node_row" where
  "new_node_row (i, Point (Some (px, py))) =
     \<lparr>osmid = i, node_x = px, node_y = py, node_geometry = Point (Some (px, py))\<rparr>"
| "new_node_row (i, g) = \<lparr>osmid = i, node_x = 0, node_y = 0, node_geometry = g\<rparr>"

text \<open>Swapping the columns \<open>u\<close> and \<open>v\<close> and setting \<open>key\<close> to 1; nothing else changes.\<close>

definition reversed_edge :: "edge_row \<Rightarrow> edge_row" where
  "reversed_edge e = e\<lparr>edge_index := (edge_v e, edge_u e, 1)\<rparr>"

text \<open>The edge table after the clip and the renumbering, before \<open>make_nodes\<close>.\<close>

definition clipped_edges ::
  "(geometry \<Rightarrow> geometry \<Rightarrow> geometry) \<Rightarrow> (geometry \<Rightarrow> real) \<Rightarrow>
   edge_row list \<Rightarrow> geometry \<Rightarrow> edge_row list" where
  "clipped_edges difference utm_length edges exclusion_areas =
     map (\<lambda>e. e\<lparr>edge_length := utm_length (edge_geometry e)\<rparr>)
       (map (\<lambda>e. e\<lparr>edge_geometry := difference (edge_geometry e) exclusion_areas\<rparr>)
          (filter (\<lambda>e. edge_key e = 0) edges))"

definition nodes_to_remove ::
  "(geometry \<Rightarrow> geometry \<Rightarrow> geometry) \<Rightarrow> node_row list \<Rightarrow> geometry \<Rightarrow> node_row list" where
  "nodes_to_remove difference nodes exclusion_areas =
     filter (\<lambda>n. is_empty (node_geometry n))
       (map (\<lambda>n. n\<lparr>node_geometry := difference (node_geometry n) exclusion_areas\<rparr>) nodes)"

definition key0_index :: "edge_row list \<Rightarrow> edge_index list" where
  "key0_index edges = map edge_index (filter (\<lambda>e. edge_key e = 0) edges)"

definition removed_ids ::
  "(geometry \<Rightarrow> geometry \<Rightarrow> geometry) \<Rightarrow> node_row list \<Rightarrow> geometry \<Rightarrow> int list" where
  "removed_ids difference nodes exclusion_areas =
     map osmid (nodes_to_remove difference nodes exclusion_areas)"

definition remapped_index ::
  "(geometry \<Rightarrow> geometry \<Rightarrow> geometry) \<Rightarrow> node_row list \<Rightarrow> edge_row list \<Rightarrow>
   geometry \<Rightarrow> edge_index list" where
  "remapped_index difference nodes edges exclusion_areas =
     remap_missing_nodes (Max (set (map osmid nodes)) + 1)
       (removed_ids difference nodes exclusion_areas) (key0_index edges)"

definition remapped_edges ::
  "(geometry \<Rightarrow> geometry \<Rightarrow> geometry) \<Rightarrow> (geometry \<Rightarrow> real) \<Rightarrow>
   node_row list \<Rightarrow> edge_row list \<Rightarrow> geometry \<Rightarrow> edge_row list" where
  "remapped_edges difference utm_length nodes edges exclusion_areas =
     map (\<lambda>(e, i). e\<lparr>edge_index := i\<rparr>)
       (zip (clipped_edges difference utm_length edges exclusion_areas)
            (remapped_index difference nodes edges exclusion_areas))"

definition specialize ::
  "(geometry \<Rightarrow> geometry \<Rightarrow> geometry) \<Rightarrow> (geometry \<Rightarrow> real) \<Rightarrow>
   node_row list \<Rightarrow> edge_row list \<Rightarrow> geometry \<Rightarrow>
   exception + (node_row list \<times> edge_row list)" where
  "specialize difference utm_length nodes edges exclusion_areas =
     (let local_nodes =
            filter (\<lambda>n. \<not> is_empty (node_geometry n))
              (map (\<lambda>n. n\<lparr>node_geometry := difference (node_geometry n) exclusion_areas\<rparr>)
                 nodes);
          local_edges = remapped_edges difference utm_length nodes edges exclusion_areas;
          max_node_id = Max (set (map osmid nodes))
      in case apply_rows (make_nodes max_node_id) local_edges of
           Inl e \<Rightarrow> Inl e
         | Inr extra_nodes \<Rightarrow>
             let u_nodes = concat (map (\<lambda>(row, ug, vg).
                             case ug of None \<Rightarrow> [] | Some g \<Rightarrow> [(edge_u row, g)]) extra_nodes);
                 v_nodes = concat (map (\<lambda>(row, ug, vg).
                             case vg of None \<Rightarrow> [] | Some g \<Rightarrow> [(edge_v row, g)]) extra_nodes)
             in if u_nodes = [] then Inl (KeyError ''u_geometry'')
                else if v_nodes = [] then Inl (KeyError ''v_geometry'')
                else
                  let new_nodes = map new_node_row (drop_duplicates (u_nodes @ v_nodes));
                      reversed_edges = map reversed_edge local_edges
                  in Inr (local_nodes @ new_nodes, local_edges @ reversed_edges))"

section \<open>The edge builder: \<open>make_edges\<close> of \<open>prepare.py\<close>\<close>

text \<open>
  \<open>make_edges\<close> from the table \<open>segments\<close> on: the pieces of the input lines, after
  the snapping and the splitting that the spatial joins drive. Each piece is joined to
  the node table twice, on the exact coordinates of its first and of its last vertex;
  a piece whose vertex matches no node keeps \<open>NaN\<close> for that id, here \<open>None\<close>.
  A node of the table is its id and its \<open>(x, y)\<close>.
\<close>

record prep_edge =
  prep_u :: "int option"
  prep_v :: "int option"
  prep_key :: int
  prep_geometry :: geometry
  prep_length :: real

text \<open>The ids of the nodes at a coordinate, as a right or left join lists them.\<close>

definition join_nodes :: "(int \<times> coord) list \<Rightarrow> coord \<Rightarrow> int option list" where
  "join_nodes nodes c =
     (case filter (\<lambda>n. snd n = c) nodes of
        [] \<Rightarrow> [None]
      | ms \<Rightarrow> map (\<lambda>n. Some (fst n)) ms)"

text \<open>\<open>edges["u"] != edges["v"]\<close> on float columns: \<open>NaN\<close> differs from everything.\<close>

fun nan_ne :: "int option \<Rightarrow> int option \<Rightarrow> bool" where
  "nan_ne (Some a) (Some b) = (a \<noteq> b)"
| "nan_ne a b = True"

definition join_segment ::
  "(int \<times> coord) list \<Rightarrow> geometry \<Rightarrow> exception + (int option \<times> int option \<times> geometry) list" where
  "join_segment nodes g =
     (case coords_first g of
        Inl e \<Rightarrow> Inl e
      | Inr first \<Rightarrow>
          (case coords_last g of
             Inl e \<Rightarrow> Inl e
           | Inr lst \<Rightarrow>
               Inr (concat (map (\<lambda>u. map (\<lambda>v. (u, v, g)) (join_nodes nodes lst))
                                (join_nodes nodes first)))))"

definition reversed_prep_edge :: "prep_edge \<Rightarrow> prep_edge" where
  "reversed_prep_edge e = e\<lparr>prep_u := prep_v e, prep_v := prep_u e, prep_key := 1\<rparr>"

definition make_edges ::
  "(geometry \<Rightarrow> real) \<Rightarrow> (int \<times> coord) list \<Rightarrow> geometry list \<Rightarrow> exception + prep_edge list" where
  "make_edges utm_length nodes segments =
     (case apply_rows (join_segment nodes) segments of
        Inl e \<Rightarrow> Inl e
      | Inr joined \<Rightarrow>
          let edges = map (\<lambda>(u, v, g).
                        \<lparr>prep_u = u, prep_v = v, prep_key = 0, prep_geometry = g,
                         prep_length = utm_length g\<rparr>)
                        (filter (\<lambda>(u, v, g). nan_ne u v) (concat joined));
              reversed_edges = map reversed_prep_edge edges
          in Inr (edges @ reversed_edges))"

text \<open>
  The coordinate-reversed geometry the edge-pairing property of the specification
  speaks of. It is not a function of the repository.
\<close>

fun reverse_geometry :: "geometry \<Rightarrow> geometry" where
  "reverse_geometry (LineString cs) = LineString (rev cs)"
| "reverse_geometry (LinearRing cs) = LinearRing (rev cs)"
| "reverse_geometry (MultiLineString ls) = MultiLineString (map rev ls)"
| "reverse_geometry g = g"

section \<open>The working graph\<close>

text \<open>
  A networkx \<open>MultiDiGraph\<close>: its nodes with their attributes (\<open>None\<close> for a node that
  an edge brought in and that has no attributes), and its edges by \<open>(u, v, key)\<close>.
  \<open>graph_from_gdfs\<close> adds the edges of the edge table, then the nodes of the node
  table with their attributes; a later row of the same index overwrites an earlier
  one. \<open>G.update(H)\<close> adds the nodes and edges of \<open>H\<close> to \<open>G\<close> and removes nothing.
\<close>

record graph =
  g_nodes :: "int \<rightharpoonup> node_row option"
  g_edges :: "edge_index \<rightharpoonup> edge_row"

definition graph_from_gdfs :: "node_row list \<Rightarrow> edge_row list \<Rightarrow> graph" where
  "graph_from_gdfs nodes edges =
     \<lparr>g_nodes = (\<lambda>n. case map_of (map (\<lambda>r. (osmid r, r)) (rev nodes)) n of
                       Some r \<Rightarrow> Some (Some r)
                     | None \<Rightarrow> if n \<in> set (endpoints (map edge_index edges))
                               then Some None else None),
      g_edges = map_of (map (\<lambda>e. (edge_index e, e)) (rev edges))\<rparr>"

definition graph_update :: "graph \<Rightarrow> graph \<Rightarrow> graph" where
  "graph_update G H =
     \<lparr>g_nodes = (\<lambda>n. case g_nodes H n of
                       None \<Rightarrow> g_nodes G n
                     | Some None \<Rightarrow> (case g_nodes G n of None \<Rightarrow> Some None | Some a \<Rightarrow> Some a)
                     | Some (Some r) \<Rightarrow> Some (Some r)),
      g_edges = g_edges G ++ g_edges H\<rparr>"

section \<open>The splicer: \<open>split_graph\<close>\<close>

text \<open>
  The geometric operations of geopandas and shapely that \<open>split_graph\<close> calls are the
  fields of \<open>lib\<close>: \<open>sjoin_nearest target edges\<close> is the list of the indices of the edges
  nearest to the target in the UTM projection, \<open>line_locate_point\<close> the normalized
  position of the target's foot on a line, \<open>interpolate\<close> the point at a normalized
  position, \<open>substring\<close> the part of a line between two normalized positions, and
  \<open>utm_len\<close> the UTM length rounded to two decimals.
\<close>

record lib =
  sjoin_nearest :: "geometry \<Rightarrow> edge_row list \<Rightarrow> edge_index list"
  line_locate_point :: "geometry \<Rightarrow> geometry \<Rightarrow> real"
  interpolate :: "geometry \<Rightarrow> real \<Rightarrow> geometry"
  substring :: "geometry \<Rightarrow> real \<Rightarrow> real \<Rightarrow> geometry"
  utm_len :: "geometry \<Rightarrow> real"

text \<open>
  \<open>edges.index.max()\<close> is the greatest index tuple in the lexicographic order of
  tuples, and \<open>max\<close> of that tuple is the greatest of its three components.
\<close>

fun index_le :: "edge_index \<Rightarrow> edge_index \<Rightarrow> bool" where
  "index_le (u, v, k) (u', v', k') =
     (u < u' \<or> (u = u' \<and> (v < v' \<or> (v = v' \<and> k \<le> k'))))"

fun index_max :: "edge_index \<Rightarrow> edge_index list \<Rightarrow> edge_index" where
  "index_max m [] = m"
| "index_max m (i # is) = index_max (if index_le m i then i else m) is"

fun tuple_max :: "edge_index \<Rightarrow> int" where
  "tuple_max (u, v, k) = max u (max v k)"

text \<open>\<open>p.x\<close>, \<open>p.y\<close> of a point; an empty point has none.\<close>

fun point_xy :: "geometry \<Rightarrow> exception + coord" where
  "point_xy (Point (Some c)) = Inr c"
| "point_xy (Point None) = Inl (LibraryError ''empty point'')"
| "point_xy g = Inl AttributeError"

text \<open>
  The rows of \<open>edges\<close> that the nearest-edge join returned, in the order of \<open>edges\<close>
  (an inner join on the index keeps the order of the calling frame).
\<close>

definition candidates :: "lib \<Rightarrow> geometry \<Rightarrow> edge_row list \<Rightarrow> edge_row list" where
  "candidates L target edges =
     concat (map (\<lambda>e. map (\<lambda>c. e) (filter (\<lambda>c. c = edge_index e) (sjoin_nearest L target edges)))
                 edges)"

definition new_edge :: "lib \<Rightarrow> int \<Rightarrow> int \<Rightarrow> geometry \<Rightarrow> edge_row" where
  "new_edge L u v g = \<lparr>edge_index = (u, v, 0), edge_geometry = g, edge_length = utm_len L g\<rparr>"

text \<open>
  The table \<open>new_edges\<close> of \<open>split_graph\<close>, by the three branches on the normalized
  distance: the two halves of the nearest edge and the connector, or the connector
  alone from the end of the edge the target lies beyond.
\<close>

definition split_edges ::
  "lib \<Rightarrow> edge_row \<Rightarrow> int \<Rightarrow> real \<Rightarrow> coord \<Rightarrow> coord \<Rightarrow> edge_row list" where
  "split_edges L edge node_id normalized_distance foot tgt =
     (let closest_line = edge_geometry edge;
          connector = LineString [foot, tgt];
          intermediate_node_id = node_id + 1
      in if 0 < normalized_distance \<and> normalized_distance < 1
         then [new_edge L (edge_u edge) intermediate_node_id
                 (substring L closest_line 0 normalized_distance),
               new_edge L intermediate_node_id (edge_v edge)
                 (substring L closest_line normalized_distance 1),
               new_edge L intermediate_node_id node_id connector]
         else if normalized_distance \<le> 0
         then [new_edge L (edge_u edge) node_id connector]
         else [new_edge L (edge_v edge) node_id connector])"

text \<open>The table \<open>new_nodes\<close>: the target, and the foot point when the edge is split.\<close>

definition split_nodes ::
  "int \<Rightarrow> real \<Rightarrow> geometry \<Rightarrow> coord \<Rightarrow> geometry \<Rightarrow> coord \<Rightarrow> node_row list" where
  "split_nodes node_id normalized_distance point_on_line foot target tgt =
     (let target_node = \<lparr>osmid = node_id, node_x = fst tgt, node_y = snd tgt,
                         node_geometry = target\<rparr>
      in if 0 < normalized_distance \<and> normalized_distance < 1
         then [target_node,
               \<lparr>osmid = node_id + 1, node_x = fst foot, node_y = snd foot,
                node_geometry = point_on_line\<rparr>]
         else [target_node])"

definition split_graph ::
  "lib \<Rightarrow> graph \<Rightarrow> geometry \<Rightarrow> edge_row list \<Rightarrow>
   exception + (int \<times> edge_row list \<times> geometry \<times> graph)" where
  "split_graph L G target edges =
     (case edges of
        [] \<Rightarrow> Inl ValueError
      | e0 # es \<Rightarrow>
          let node_id = tuple_max (index_max (edge_index e0) (map edge_index es)) + 1
          in case point_xy target of
               Inl e \<Rightarrow> Inl e
             | Inr tgt \<Rightarrow>
                 (case candidates L target edges of
                    [] \<Rightarrow> Inl IndexError
                  | edge # _ \<Rightarrow>
                      let closest_line = edge_geometry edge;
                          normalized_distance = line_locate_point L closest_line target;
                          point_on_line = interpolate L closest_line normalized_distance
                      in case point_xy point_on_line of
                           Inl e \<Rightarrow> Inl e
                         | Inr foot \<Rightarrow>
                             let new_nodes = split_nodes node_id normalized_distance
                                               point_on_line foot target tgt;
                                 new_edges = split_edges L edge node_id normalized_distance
                                               foot tgt;
                                 reversed_new_edges = map reversed_edge new_edges;
                                 all_new_edges = new_edges @ reversed_new_edges
                             in Inr (node_id, edges @ all_new_edges, target,
                                     graph_update G (graph_from_gdfs new_nodes all_new_edges))))"

text \<open>
  The edge-pairing property as the code keeps it: every key-0 edge \<open>(u, v)\<close> has a key-1
  edge \<open>(v, u)\<close> with the same geometry and the same length. The variants with
  \<open>reverse_geometry\<close> are the property as the specification words it.
\<close>

definition prep_edge_pairing :: "prep_edge list \<Rightarrow> bool" where
  "prep_edge_pairing es =
     (\<forall>e \<in> set es. prep_key e = 0 \<longrightarrow>
        (\<exists>e' \<in> set es. prep_u e' = prep_v e \<and> prep_v e' = prep_u e \<and> prep_key e' = 1 \<and>
           prep_geometry e' = prep_geometry e \<and> prep_length e' = prep_length e))"

definition edge_pairing :: "edge_row list \<Rightarrow> bool" where
  "edge_pairing es =
     (\<forall>e \<in> set es. edge_key e = 0 \<longrightarrow>
        (\<exists>e' \<in> set es. edge_index e' = (edge_v e, edge_u e, 1) \<and>
           edge_geometry e' = edge_geometry e \<and> edge_length e' = edge_length e))"

definition prep_edge_pairing_reversed :: "prep_edge list \<Rightarrow> bool" where
  "prep_edge_pairing_reversed es =
     (\<forall>e \<in> set es. prep_key e = 0 \<longrightarrow>
        (\<exists>e' \<in> set es. prep_u e' = prep_v e \<and> prep_v e' = prep_u e \<and> prep_key e' = 1 \<and>
           prep_geometry e' = reverse_geometry (prep_geometry e) \<and>
           prep_length e' = prep_length e))"

definition edge_pairing_reversed :: "edge_row list \<Rightarrow> bool" where
  "edge_pairing_reversed es =
     (\<forall>e \<in> set es. edge_key e = 0 \<longrightarrow>
        (\<exists>e' \<in> set es. edge_index e' = (edge_v e, edge_u e, 1) \<and>
           edge_geometry e' = reverse_geometry (edge_geometry e) \<and>
           edge_length e' = edge_length e))"

section \<open>The geometry cleaner: \<open>clean_geometries\<close>\<close>








section \<open>The request handler: \<open>lambda_handler.py\<close>\<close>

subsection \<open>\<open>parse_arn\<close>\<close>

text \<open>\<open>s.split(sep, maxsplit)\<close> for a one-character separator.\<close>

fun split_max :: "char \<Rightarrow> nat \<Rightarrow> string \<Rightarrow> string list" where
  "split_max c n [] = [[]]"
| "split_max c 0 s = [s]"
| "split_max c (Suc n) (x # xs) =
     (if x = c then [] # split_max c n xs
      else (case split_max c (Suc n) xs of
              [] \<Rightarrow> [[x]]
            | w # ws \<Rightarrow> (x # w) # ws))"

text \<open>\<open>s.split("#")[0]\<close>: the part of \<open>s\<close> before its first \<open>#\<close>.\<close>

definition before_hash :: "string \<Rightarrow> string" where
  "before_hash s = takeWhile (\<lambda>c. c \<noteq> CHR ''#'') s"

record arn_components =
  arn_arn :: string
  arn_partition :: string
  arn_service :: string
  arn_region :: string
  arn_account :: string
  arn_resource :: string
  arn_resource_type :: "string option"

definition parse_arn :: "string \<Rightarrow> exception + arn_components" where
  "parse_arn arn =
     (case split_max CHR '':'' 5 arn of
        [e0, e1, e2, e3, e4, e5] \<Rightarrow>
          (let result = \<lparr>arn_arn = e0, arn_partition = e1, arn_service = e2, arn_region = e3,
                          arn_account = e4, arn_resource = e5, arn_resource_type = None\<rparr>
           in if CHR ''/'' \<in> set e5 then
                (case split_max CHR ''/'' 1 e5 of
                   [t, r] \<Rightarrow> Inr (result\<lparr>arn_resource := r, arn_resource_type := Some t\<rparr>)
                 | _ \<Rightarrow> Inl ValueError)
              else if CHR '':'' \<in> set e5 then
                (case split_max CHR '':'' 1 e5 of
                   [t, r] \<Rightarrow> Inr (result\<lparr>arn_resource := r, arn_resource_type := Some t\<rparr>)
                 | _ \<Rightarrow> Inl ValueError)
              else Inr result)
      | _ \<Rightarrow> Inl IndexError)"

text \<open>\<open>parse_arn\<close> on a value of the request: only a string has \<open>split\<close>.\<close>

definition parse_arn_json :: "json \<Rightarrow> exception + (string \<times> arn_components)" where
  "parse_arn_json j =
     (case j of
        JStr s \<Rightarrow> (case parse_arn s of Inl e \<Rightarrow> Inl e | Inr c \<Rightarrow> Inr (s, c))
      | _ \<Rightarrow> Inl AttributeError)"

subsection \<open>\<open>prefetch_geofences\<close>\<close>

text \<open>Iterating a value of the request, as \<open>for x in areas\<close> does.\<close>

fun iterate :: "json \<Rightarrow> exception + json list" where
  "iterate (JArr xs) = Inr xs"
| "iterate (JObj kvs) = Inr (map (\<lambda>kv. JStr (fst kv)) kvs)"
| "iterate (JStr s) = Inr (map (\<lambda>c. JStr [c]) s)"
| "iterate j = Inl TypeError"

fun contains :: "string \<Rightarrow> string \<Rightarrow> bool" where
  "contains [] t = (t = [])"
| "contains (c # s) t = (take (length t) (c # s) = t \<or> contains s t)"

text \<open>
  The \<open>Arn\<close> of an area when the filter \<open>"Arn" in x.get("Area", {})\<close> lets it through,
  read as \<open>x["Area"]["Arn"]\<close>.
\<close>

definition area_arn :: "json \<Rightarrow> exception + json option" where
  "area_arn x =
     (case get_default x ''Area'' (JObj []) of
        Inl e \<Rightarrow> Inl e
      | Inr a \<Rightarrow>
          (case a of
             JObj kvs \<Rightarrow> Inr (map_of kvs ''Arn'')
           | JArr xs \<Rightarrow> if JStr ''Arn'' \<in> set xs then Inl TypeError else Inr None
           | JStr t \<Rightarrow> if contains t ''Arn'' then Inl TypeError else Inr None
           | _ \<Rightarrow> Inl TypeError))"

definition area_parsed_arn :: "json \<Rightarrow> exception + (string \<times> arn_components) option" where
  "area_parsed_arn x =
     (case area_arn x of
        Inl e \<Rightarrow> Inl e
      | Inr None \<Rightarrow> Inr None
      | Inr (Some arn) \<Rightarrow>
          (case parse_arn_json arn of Inl e \<Rightarrow> Inl e | Inr p \<Rightarrow> Inr (Some p)))"

text \<open>
  A dict in insertion order: assigning to a key that is there keeps its place.
  \<open>grouped\<close> maps a region to the dict from collection name to ARN.
\<close>

fun dict_set :: "('k \<times> 'v) list \<Rightarrow> 'k \<Rightarrow> 'v \<Rightarrow> ('k \<times> 'v) list" where
  "dict_set [] k v = [(k, v)]"
| "dict_set ((k', v') # kvs) k v =
     (if k' = k then (k, v) # kvs else (k', v') # dict_set kvs k v)"

definition group_arn ::
  "(string \<times> (string \<times> string) list) list \<Rightarrow> string \<times> arn_components \<Rightarrow>
   (string \<times> (string \<times> string) list) list" where
  "group_arn grouped a =
     (let arn_without_id = before_hash (fst a);
          region = arn_region (snd a);
          inner = (case map_of grouped region of None \<Rightarrow> [] | Some d \<Rightarrow> d)
      in if arn_without_id \<notin> fst ` set inner
         then dict_set grouped region
                (dict_set inner (before_hash (arn_resource (snd a))) arn_without_id)
         else dict_set grouped region inner)"

text \<open>
  The answer of the geofence catalog for a collection of a region: all the entries of
  all pages, each with its \<open>GeofenceId\<close>, or botocore's \<open>ClientError\<close>, or another
  exception of the client.
\<close>

datatype fetched = ClientError | FetchError exception | Entries "(string \<times> json) list"

fun fetch_resources ::
  "(string \<Rightarrow> string \<Rightarrow> fetched) \<Rightarrow> string \<Rightarrow> (string \<times> string) list \<Rightarrow>
   failure + (string \<times> json) list" where
  "fetch_resources list_geofences region [] = Inr []"
| "fetch_resources list_geofences region ((resource, arn) # rs) =
     (case list_geofences region resource of
        ClientError \<Rightarrow>
          Inl (LambdaException 500
                 (''Unable to pre-fetch geofences ('' @ region @ '' / '' @ resource @ '')''))
      | FetchError e \<Rightarrow> Inl (Uncaught e)
      | Entries es \<Rightarrow>
          (case fetch_resources list_geofences region rs of
             Inl f \<Rightarrow> Inl f
           | Inr later \<Rightarrow> Inr (map (\<lambda>(gid, g). (arn @ ''#'' @ gid, g)) es @ later)))"

fun fetch_regions ::
  "(string \<Rightarrow> string \<Rightarrow> fetched) \<Rightarrow> (string \<times> (string \<times> string) list) list \<Rightarrow>
   failure + (string \<times> json) list" where
  "fetch_regions list_geofences [] = Inr []"
| "fetch_regions list_geofences ((region, resources) # gs) =
     (case fetch_resources list_geofences region resources of
        Inl f \<Rightarrow> Inl f
      | Inr found \<Rightarrow>
          (case fetch_regions list_geofences gs of
             Inl f \<Rightarrow> Inl f
           | Inr later \<Rightarrow> Inr (found @ later)))"

text \<open>
  The dict \<open>geofences\<close> is the list of its assignments in order; a later assignment to
  a key wins.
\<close>

definition prefetch_geofences ::
  "(string \<Rightarrow> string \<Rightarrow> fetched) \<Rightarrow> json \<Rightarrow> failure + (string \<times> json) list" where
  "prefetch_geofences list_geofences areas =
     (case iterate areas of
        Inl e \<Rightarrow> Inl (Uncaught e)
      | Inr xs \<Rightarrow>
          (case apply_rows area_parsed_arn xs of
             Inl e \<Rightarrow> Inl (Uncaught e)
           | Inr parsed \<Rightarrow>
               fetch_regions list_geofences (foldl group_arn [] (List.map_filter id parsed))))"

subsection \<open>The collaborators of the handler\<close>

text \<open>
  What the module reads when it is loaded and the library calls of the handler:
  \<open>json_loads\<close> is \<open>json.loads\<close>; \<open>make_point v\<close> and \<open>make_polygon v\<close> are shapely's
  \<open>Point(*v)\<close> and \<open>Polygon(*v)\<close>; \<open>buffer_point c r\<close> is the circle of radius \<open>r\<close>
  meters around the point \<open>c\<close>, buffered in the UTM projection and projected back;
  \<open>text_of e\<close> is \<open>str(e)\<close>; \<open>list_geofences\<close> is the geofence catalog;
  \<open>shortest_path\<close> and \<open>route_to_json\<close> are the router of osmnx and the GeoJSON of its
  route; \<open>env_graph\<close>, \<open>env_nodes\<close> and \<open>env_edges\<close> are the prepared graph and its
  two tables.
\<close>

record env =
  json_loads :: "string \<Rightarrow> exception + json"
  make_point :: "json \<Rightarrow> exception + geometry"
  make_polygon :: "json \<Rightarrow> exception + geometry"
  buffer_point :: "geometry \<Rightarrow> json \<Rightarrow> exception + geometry"
  text_of :: "exception \<Rightarrow> string"
  list_geofences :: "string \<Rightarrow> string \<Rightarrow> fetched"
  env_difference :: "geometry \<Rightarrow> geometry \<Rightarrow> geometry"
  env_lib :: lib
  shortest_path :: "graph \<Rightarrow> int \<Rightarrow> int \<Rightarrow> exception + int list option"
  route_to_json :: "graph \<Rightarrow> int list \<Rightarrow> exception + string"
  env_graph :: graph
  env_nodes :: "node_row list"
  env_edges :: "edge_row list"
  env_float_repr :: "real \<Rightarrow> string"

text \<open>Sequencing: the first failure ends the computation.\<close>

definition and_then :: "failure + 'a \<Rightarrow> ('a \<Rightarrow> failure + 'b) \<Rightarrow> failure + 'b" where
  "and_then m f = (case m of Inl e \<Rightarrow> Inl e | Inr x \<Rightarrow> f x)"

subsection \<open>\<open>get_exclusion_areas\<close>\<close>

definition only_one_message :: string where
  "only_one_message = ''Only one of {Circle, Polygon, Arn} may be provided per Area.''"

text \<open>The three values \<open>circle\<close>, \<open>polygon\<close>, \<open>arn\<close> of an area; \<open>None\<close> is \<open>JNull\<close>.\<close>

definition area_values :: "json \<Rightarrow> exception + (json \<times> json \<times> json)" where
  "area_values area =
     (case get_default area ''Area'' (JObj []) of
        Inl e \<Rightarrow> Inl e
      | Inr a \<Rightarrow>
          (case get_default a ''Circle'' JNull of
             Inl e \<Rightarrow> Inl e
           | Inr circle \<Rightarrow>
               (case get_default a ''Polygon'' JNull of
                  Inl e \<Rightarrow> Inl e
                | Inr polygon \<Rightarrow>
                    (case get_default a ''Arn'' JNull of
                       Inl e \<Rightarrow> Inl e
                     | Inr arn \<Rightarrow> Inr (circle, polygon, arn)))))"

text \<open>
  The branch \<open>if arn:\<close>: the geofence of the ARN overrides \<open>polygon\<close> or \<open>circle\<close>.
\<close>

definition resolve_arn ::
  "(string \<times> json) list \<Rightarrow> json \<Rightarrow> json \<Rightarrow> json \<Rightarrow> failure + (json \<times> json)" where
  "resolve_arn geofences arn circle polygon =
     and_then (lift (parse_arn_json arn)) (\<lambda>(a, arn_components).
       if arn_service arn_components \<noteq> ''geo''
       then Inl (LambdaException 400
                   (''Unrecognized service: '' @ arn_service arn_components))
       else (case map_of (rev geofences) a of
               None \<Rightarrow> Inl (LambdaException 500 (''Unable to fetch geofence ('' @ a @ '')''))
             | Some geofence \<Rightarrow>
                 and_then (lift (getitem geofence ''Geometry'')) (\<lambda>g.
                 and_then (lift (get_default g ''Polygon'' JNull)) (\<lambda>p.
                   if truthy p then Inr (circle, p)
                   else and_then (lift (get_default g ''Circle'' JNull)) (\<lambda>c.
                          if truthy c then Inr (c, polygon) else Inr (circle, polygon))))))"

text \<open>The body of the first \<open>try\<close>: the circle around \<open>circle["Center"]\<close>.\<close>

definition circle_area :: "env \<Rightarrow> json \<Rightarrow> exception + geometry" where
  "circle_area E circle =
     (case getitem circle ''Center'' of
        Inl e \<Rightarrow> Inl e
      | Inr c \<Rightarrow>
          (case make_point E c of
             Inl e \<Rightarrow> Inl e
           | Inr center \<Rightarrow>
               (case getitem circle ''Radius'' of
                  Inl e \<Rightarrow> Inl e
                | Inr radius \<Rightarrow> buffer_point E center radius)))"

text \<open>One turn of the loop of \<open>get_exclusion_areas\<close>: the geometries it appends.\<close>

definition resolve_area :: "env \<Rightarrow> (string \<times> json) list \<Rightarrow> json \<Rightarrow> failure + geometry list" where
  "resolve_area E geofences area =
     and_then (lift (area_values area)) (\<lambda>(circle, polygon, arn).
       if length (filter truthy [circle, polygon, arn]) \<noteq> 1
       then Inl (LambdaException 400 only_one_message)
       else
         and_then (if truthy arn then resolve_arn geofences arn circle polygon
                   else Inr (circle, polygon)) (\<lambda>(circle, polygon).
         and_then (if truthy circle then
                     (case circle_area E circle of
                        Inl e \<Rightarrow> Inl (LambdaException 400
                                         (''Invalid Circle area: '' @ text_of E e))
                      | Inr g \<Rightarrow> Inr [g])
                   else Inr []) (\<lambda>circles.
         and_then (if truthy polygon then
                     (case make_polygon E polygon of
                        Inl e \<Rightarrow> Inl (LambdaException 400
                                         (''Invalid Polygon area: '' @ text_of E e))
                      | Inr g \<Rightarrow> Inr [g])
                   else Inr []) (\<lambda>polygons. Inr (circles @ polygons)))))"

fun resolve_areas :: "env \<Rightarrow> (string \<times> json) list \<Rightarrow> json list \<Rightarrow> failure + geometry list" where
  "resolve_areas E geofences [] = Inr []"
| "resolve_areas E geofences (area # areas) =
     and_then (resolve_area E geofences area) (\<lambda>gs.
     and_then (resolve_areas E geofences areas) (\<lambda>hs. Inr (gs @ hs)))"

definition get_exclusion_areas :: "env \<Rightarrow> json \<Rightarrow> (string \<times> json) list \<Rightarrow> failure + geometry" where
  "get_exclusion_areas E areas geofences =
     and_then (lift (iterate areas)) (\<lambda>xs.
     and_then (resolve_areas E geofences xs) (\<lambda>exclusion_areas.
       Inr (GeometryCollection exclusion_areas)))"

subsection \<open>\<open>handle\<close>\<close>

record response =
  statusCode :: int
  headers :: "(string \<times> string) list"
  body :: string

text \<open>
  The \<open>try\<close> block of \<open>handle\<close>. A shapely geometry is true when it is not empty, so
  the specializer runs when the resolved collection is not empty.
\<close>

definition handle_try :: "env \<Rightarrow> json \<Rightarrow> failure + response" where
  "handle_try E event =
     and_then (lift (getitem event ''body'')) (\<lambda>text.
     and_then (case text of JStr t \<Rightarrow> lift (json_loads E t) | _ \<Rightarrow> Inl (Uncaught TypeError))
       (\<lambda>payload.
     and_then (lift (getitem payload ''Origin'')) (\<lambda>origin_json.
     and_then (lift (make_point E origin_json)) (\<lambda>origin.
     and_then (lift (getitem payload ''Destination'')) (\<lambda>destination_json.
     and_then (lift (make_point E destination_json)) (\<lambda>destination.
     and_then (lift (get_default payload ''Avoid'' (JObj []))) (\<lambda>avoid.
     and_then (lift (get_default avoid ''Areas'' (JArr []))) (\<lambda>areas.
     and_then (prefetch_geofences (list_geofences E) areas) (\<lambda>geofences.
     and_then (get_exclusion_areas E areas geofences) (\<lambda>exclusion_areas.
     and_then (if \<not> is_empty exclusion_areas then
                 and_then (lift (specialize (env_difference E) (utm_len (env_lib E))
                                   (env_nodes E) (env_edges E) exclusion_areas))
                   (\<lambda>(local_nodes, local_edges).
                      Inr (graph_from_gdfs local_nodes local_edges, local_edges))
               else Inr (env_graph E, env_edges E)) (\<lambda>(G, local_edges).
     and_then (lift (split_graph (env_lib E) G origin local_edges))
       (\<lambda>(origin_id, all_edges, _, G1).
     and_then (lift (split_graph (env_lib E) G1 destination all_edges))
       (\<lambda>(destination_id, _, _, G2).
     and_then (lift (shortest_path E G2 origin_id destination_id)) (\<lambda>route.
       case route of
         None \<Rightarrow> Inl (LambdaException 404 ''No route found.'')
       | Some r \<Rightarrow>
           and_then (lift (route_to_json E G2 r)) (\<lambda>route_geojson.
             Inr \<lparr>statusCode = 200,
                  headers = [(''Access-Control-Allow-Origin'', ''*''),
                             (''Content-Type'', ''application/geo+json'')],
                  body = route_geojson\<rparr>)))))))))))))))"

text \<open>The envelope the \<open>except LambdaException\<close> clause returns.\<close>

definition error_response :: "env \<Rightarrow> int \<Rightarrow> string \<Rightarrow> response" where
  "error_response E status message =
     \<lparr>statusCode = status,
      headers = [(''Access-Control-Allow-Origin'', ''*'')],
      body = json_dumps (env_float_repr E) (JObj [(''Error'', JStr message)])\<rparr>"

text \<open>
  \<open>handle\<close>: the only \<open>except\<close> clause catches \<open>LambdaException\<close>; any other exception
  leaves \<open>handle\<close>, which is the result \<open>Inl\<close>.
\<close>

definition handle :: "env \<Rightarrow> json \<Rightarrow> exception + response" where
  "handle E event =
     (case handle_try E event of
        Inr r \<Rightarrow> Inr r
      | Inl (LambdaException status message) \<Rightarrow> Inr (error_response E status message)
      | Inl (Uncaught e) \<Rightarrow> Inl e)"

section \<open>The vertex clusterer: \<open>cluster\<close> of \<open>prepare.py\<close>\<close>













section \<open>Example tables\<close>

text \<open>
  A road of three nodes on the x axis, \<open>0 \<midarrow> 1 \<midarrow> 2\<close>, as a prepared graph stores it:
  each segment once with key 0 and once with key 1. The exclusion area is a square
  around node 1; \<open>ex_difference\<close> is the difference with that square on the geometries
  of the example (node 1 vanishes, the two segments lose their half inside the square).
\<close>

definition ex_nodes :: "node_row list" where
  "ex_nodes =
     [\<lparr>osmid = 0, node_x = 0, node_y = 0, node_geometry = Point (Some (0, 0))\<rparr>,
      \<lparr>osmid = 1, node_x = 1, node_y = 0, node_geometry = Point (Some (1, 0))\<rparr>,
      \<lparr>osmid = 2, node_x = 2, node_y = 0, node_geometry = Point (Some (2, 0))\<rparr>]"

definition ex_edges :: "edge_row list" where
  "ex_edges =
     [\<lparr>edge_index = (0, 1, 0), edge_geometry = LineString [(0, 0), (1, 0)], edge_length = 1\<rparr>,
      \<lparr>edge_index = (1, 2, 0), edge_geometry = LineString [(1, 0), (2, 0)], edge_length = 1\<rparr>,
      \<lparr>edge_index = (1, 0, 1), edge_geometry = LineString [(0, 0), (1, 0)], edge_length = 1\<rparr>,
      \<lparr>edge_index = (2, 1, 1), edge_geometry = LineString [(1, 0), (2, 0)], edge_length = 1\<rparr>]"

definition ex_area :: geometry where
  "ex_area = GeometryCollection
     [Polygon (Poly [(1/2, -1/2), (3/2, -1/2), (3/2, 1/2), (1/2, 1/2), (1/2, -1/2)] [])]"

definition ex_difference :: "geometry \<Rightarrow> geometry \<Rightarrow> geometry" where
  "ex_difference g E =
     (if g = Point (Some (1, 0)) then Point None
      else if g = LineString [(0, 0), (1, 0)] then LineString [(0, 0), (1/2, 0)]
      else if g = LineString [(1, 0), (2, 0)] then LineString [(3/2, 0), (2, 0)]
      else g)"

text \<open>
  The length of a two-point segment parallel to an axis, standing for the UTM length.
\<close>

definition ex_utm_length :: "geometry \<Rightarrow> real" where
  "ex_utm_length g =
     (case g of LineString [(ax, ay), (bx, by)] \<Rightarrow> \<bar>bx - ax\<bar> + \<bar>by - ay\<bar> | _ \<Rightarrow> 0)"

text \<open>
  An exclusion area that covers the whole road: the difference of every point and of
  every line with it is empty.
\<close>

definition ex_cover_all :: geometry where
  "ex_cover_all = GeometryCollection
     [Polygon (Poly [(-1, -1), (3, -1), (3, 1), (-1, 1), (-1, -1)] [])]"

definition difference_covered :: "geometry \<Rightarrow> geometry \<Rightarrow> geometry" where
  "difference_covered g E =
     (case g of Point c \<Rightarrow> Point None | LineString cs \<Rightarrow> LineString [] | _ \<Rightarrow> g)"

text \<open>
  A target above the middle of the segment from node 0 to node 1. The nearest-edge join
  returns the two rows of that segment; the foot of the target is at half of its
  length. \<open>ex_lib\<close> gives the library operations their values on this segment.
\<close>

definition ex_target :: geometry where
  "ex_target = Point (Some (1/2, 1))"

definition ex_lib :: lib where
  "ex_lib =
     \<lparr>sjoin_nearest = (\<lambda>t es. [(0, 1, 0), (1, 0, 1)]),
      line_locate_point = (\<lambda>l t. 1/2),
      interpolate = (\<lambda>l d. Point (Some (d, 0))),
      substring = (\<lambda>l a b. LineString [(a, 0), (b, 0)]),
      utm_len = ex_utm_length\<rparr>"

definition ex_graph :: graph where
  "ex_graph = graph_from_gdfs ex_nodes ex_edges"

text \<open>One input line from \<open>(0, 0)\<close> to \<open>(1, 1)\<close> and the two nodes at its ends.\<close>

definition ex_prep_nodes :: "(int \<times> coord) list" where
  "ex_prep_nodes = [(0, (0, 0)), (1, (1, 1))]"

definition ex_segments :: "geometry list" where
  "ex_segments = [LineString [(0, 0), (1, 1)]]"




definition ex_float_repr :: "real \<Rightarrow> string" where
  "ex_float_repr r = ''0.0''"




text \<open>
  A request with two avoidance areas: the first has a circle without a center, the
  second has both a circle and a polygon. The collaborators of the handler on it:
  \<open>json.loads\<close> reads the text of the request, a point is made from two integers, the
  text of a \<open>KeyError\<close> is its key in single quotes, the catalog is not reachable and
  the router answers with the two ends of the route.
\<close>

definition ex_area_no_center :: json where
  "ex_area_no_center = JObj [(''Area'', JObj [(''Circle'', JObj [(''Radius'', JInt 5)])])]"

definition ex_area_both :: json where
  "ex_area_both =
     JObj [(''Area'',
            JObj [(''Circle'', JObj [(''Center'', JArr [JInt 1, JInt 0]), (''Radius'', JInt 5)]),
                  (''Polygon'', JArr [JArr [JArr [JInt 0, JInt 0], JArr [JInt 1, JInt 0],
                                           JArr [JInt 1, JInt 1], JArr [JInt 0, JInt 0]]])])]"

definition ex_payload :: "json list \<Rightarrow> json" where
  "ex_payload areas =
     JObj [(''Origin'', JArr [JInt 0, JInt 0]),
           (''Destination'', JArr [JInt 2, JInt 0]),
           (''Avoid'', JObj [(''Areas'', JArr areas)])]"

definition ex_event :: "json list \<Rightarrow> json" where
  "ex_event areas = JObj [(''body'', JStr (json_dumps ex_float_repr (ex_payload areas)))]"

text \<open>The requests that the example \<open>json.loads\<close> knows the text of.\<close>

definition ex_requests :: "json list" where
  "ex_requests =
     [ex_payload [ex_area_no_center, ex_area_both], ex_payload [ex_area_both], ex_payload []]"

definition ex_env :: env where
  "ex_env =
     \<lparr>json_loads = (\<lambda>t. case find (\<lambda>p. json_dumps ex_float_repr p = t) ex_requests of
                            Some p \<Rightarrow> Inr p
                          | None \<Rightarrow> Inl JSONDecodeError),
      make_point = (\<lambda>j. case j of
                           JArr [JInt px, JInt py] \<Rightarrow>
                             Inr (Point (Some (real_of_int px, real_of_int py)))
                         | _ \<Rightarrow> Inl TypeError),
      make_polygon = (\<lambda>j. Inl ValueError),
      buffer_point = (\<lambda>c r. Inl ValueError),
      text_of = (\<lambda>e. case e of KeyError k \<Rightarrow> [CHR 0x27] @ k @ [CHR 0x27] | _ \<Rightarrow> []),
      list_geofences = (\<lambda>region resource. ClientError),
      env_difference = ex_difference,
      env_lib = ex_lib,
      shortest_path = (\<lambda>G a b. Inr (Some [a, b])),
      route_to_json = (\<lambda>G r. Inr ''{}''),
      env_graph = ex_graph,
      env_nodes = ex_nodes,
      env_edges = ex_edges,
      env_float_repr = ex_float_repr\<rparr>"






section \<open>Properties of the geometry cleaner\<close>

lemma tweeze_polygon_idem:
  "tweeze_polygon area (tweeze_polygon area p) = tweeze_polygon area p"
  by (simp add: tweeze_polygon_def)

text \<open>
  Claim C9. Sliver removal is idempotent: for every geometry \<open>g\<close> (and whatever areas
  shapely computes for rings), \<open>tweeze (tweeze g) = tweeze g\<close>.
\<close>

theorem tweeze_idempotent: "tweeze area (tweeze area g) = tweeze area g"
proof (induction area g rule: tweeze.induct)
  case (1 area p)
  show ?case by (simp add: tweeze_polygon_idem)
next
  case (2 area ps)
  show ?case by (simp add: tweeze_polygon_idem)
next
  case (3 area gs)
  then show ?case by simp
qed simp_all

lemma as_polygons_filter: "as_polygons (filter isinstance_Polygon gs) = polygon_members gs"
  by (induction gs rule: as_polygons.induct) (simp_all add: polygon_members_def)

lemma length_filter_Polygon:
  "length (filter isinstance_Polygon gs) = length (polygon_members gs)"
  by (induction gs rule: as_polygons.induct) (simp_all add: polygon_members_def)

lemma hd_filter_Polygon:
  "polygon_members gs \<noteq> [] \<Longrightarrow>
   hd (filter isinstance_Polygon gs) = Polygon (hd (polygon_members gs))"
  by (induction gs rule: as_polygons.induct) (simp_all add: polygon_members_def)

lemma filter_LineString_empty:
  "filter isinstance_LineString gs \<noteq> [] \<longleftrightarrow> has_linestring gs"
  by (auto simp: has_linestring_def filter_empty_conv)

lemma filter_Polygon_empty:
  "filter isinstance_Polygon gs \<noteq> [] \<longleftrightarrow> polygon_members gs \<noteq> []"
  using length_filter_Polygon [of gs] by (metis length_0_conv)

text \<open>
  Claim C10. On a GeometryCollection with at least one Polygon and at least one
  LineString, \<open>lint_roll\<close> returns the Polygon members only: the Polygon itself when
  there is one, the MultiPolygon of all of them when there are several; every other
  member (LineStrings, Points, anything else) is gone. On every other input, that is a
  collection without a Polygon or without a LineString, or a geometry that is not a
  collection, it returns the input.
\<close>

theorem lint_roll_spec:
  "lint_roll g =
     (case g of
        GeometryCollection gs \<Rightarrow>
          (if polygon_members gs \<noteq> [] \<and> has_linestring gs then
             (case polygon_members gs of
                [p] \<Rightarrow> Polygon p
              | ps \<Rightarrow> MultiPolygon ps)
           else g)
      | _ \<Rightarrow> g)"
proof (cases g)
  case (GeometryCollection gs)
  show ?thesis
  proof (cases "polygon_members gs \<noteq> [] \<and> has_linestring gs")
    case False
    then have "filter isinstance_Polygon gs = [] \<or> filter isinstance_LineString gs = []"
      using filter_LineString_empty [of gs] filter_Polygon_empty [of gs] by blast
    with False GeometryCollection show ?thesis
      by (auto simp: Let_def)
  next
    case True
    then have ne: "filter isinstance_Polygon gs \<noteq> []" "filter isinstance_LineString gs \<noteq> []"
      using filter_LineString_empty [of gs] filter_Polygon_empty [of gs] by blast+
    from True have h: "hd (filter isinstance_Polygon gs) = Polygon (hd (polygon_members gs))"
      by (simp add: hd_filter_Polygon)
    have "lint_roll g =
            (if length (polygon_members gs) > 1 then MultiPolygon (polygon_members gs)
             else Polygon (hd (polygon_members gs)))"
      using GeometryCollection ne h
      by (simp add: Let_def length_filter_Polygon as_polygons_filter)
    with True GeometryCollection show ?thesis
      by (cases "polygon_members gs") (auto split: list.splits)
  qed
qed simp_all

section \<open>Properties of the renumbering\<close>








section \<open>Edge pairing\<close>

lemma make_edges_pairing:
  assumes "make_edges utm_length nodes segments = Inr es"
  shows "prep_edge_pairing es"
proof -
  from assms obtain joined where j: "apply_rows (join_segment nodes) segments = Inr joined"
    by (auto simp: make_edges_def split: sum.splits)
  define edges where "edges = map (\<lambda>(u, v, g).
                        \<lparr>prep_u = u, prep_v = v, prep_key = 0, prep_geometry = g,
                         prep_length = utm_length g\<rparr>)
                        (filter (\<lambda>(u, v, g). nan_ne u v) (concat joined))"
  have es: "es = edges @ map reversed_prep_edge edges"
    using assms j by (simp add: make_edges_def Let_def edges_def)
  show ?thesis
    unfolding prep_edge_pairing_def
  proof (intro ballI impI)
    fix e assume e: "e \<in> set es" and k: "prep_key e = 0"
    from e k es have "e \<in> set edges"
      by (auto simp: reversed_prep_edge_def)
    then have "reversed_prep_edge e \<in> set es" using es by simp
    then show "\<exists>e' \<in> set es. prep_u e' = prep_v e \<and> prep_v e' = prep_u e \<and> prep_key e' = 1 \<and>
           prep_geometry e' = prep_geometry e \<and> prep_length e' = prep_length e"
      by (intro bexI [of _ "reversed_prep_edge e"]) (simp_all add: reversed_prep_edge_def)
  qed
qed

lemma append_reversed_pairing: "edge_pairing (es @ map reversed_edge es)"
  unfolding edge_pairing_def
proof (intro ballI impI)
  fix e assume e: "e \<in> set (es @ map reversed_edge es)" and k: "edge_key e = 0"
  from e k have "e \<in> set es"
    by (auto simp: reversed_edge_def edge_key_def)
  then have "reversed_edge e \<in> set (es @ map reversed_edge es)" by simp
  then show "\<exists>e' \<in> set (es @ map reversed_edge es). edge_index e' = (edge_v e, edge_u e, 1) \<and>
           edge_geometry e' = edge_geometry e \<and> edge_length e' = edge_length e"
    by (intro bexI [of _ "reversed_edge e"]) (simp_all add: reversed_edge_def)
qed

lemma specialize_edges:
  assumes "specialize difference utm_length nodes edges E = Inr (ns, es)"
  shows "es = remapped_edges difference utm_length nodes edges E @
              map reversed_edge (remapped_edges difference utm_length nodes edges E)"
  using assms by (auto simp: specialize_def Let_def split: sum.splits if_splits)

lemma edge_pairing_append:
  assumes "edge_pairing es" "edge_pairing fs"
  shows "edge_pairing (es @ fs)"
  using assms unfolding edge_pairing_def by (metis Un_iff set_append)

lemma split_graph_edges:
  assumes "split_graph L G target edges = Inr (n, es, t, G')"
  shows "\<exists>new. es = edges @ new @ map reversed_edge new"
  using assms
  by (auto simp: split_graph_def Let_def split: sum.splits list.splits prod.splits)

text \<open>
  Claim C1, as the code has it. For every key-0 edge \<open>(u, v)\<close> of a table produced by
  \<open>make_edges\<close> or by the specializer branch of \<open>handle\<close> there is a key-1 edge
  \<open>(v, u)\<close> with the same geometry (the same coordinates in the same order, not
  reversed) and the same length; \<open>split_graph\<close> keeps this property of a table.
\<close>

theorem edge_pairing_same_geometry:
  "(make_edges utm_length nodes segments = Inr pes \<longrightarrow> prep_edge_pairing pes) \<and>
   (specialize difference utm_length' nodes' edges E = Inr (ns, es) \<longrightarrow> edge_pairing es) \<and>
   (edge_pairing edges' \<and> split_graph L G target edges' = Inr (n, es', t, G') \<longrightarrow>
      edge_pairing es')"
proof (intro conjI impI)
  assume "make_edges utm_length nodes segments = Inr pes"
  then show "prep_edge_pairing pes" by (rule make_edges_pairing)
next
  assume "specialize difference utm_length' nodes' edges E = Inr (ns, es)"
  then show "edge_pairing es"
    using specialize_edges append_reversed_pairing by metis
next
  assume a: "edge_pairing edges' \<and> split_graph L G target edges' = Inr (n, es', t, G')"
  then obtain new where "es' = edges' @ new @ map reversed_edge new"
    using split_graph_edges by blast
  with a show "edge_pairing es'"
    using edge_pairing_append append_reversed_pairing by metis
qed

theorem edge_pairing_same_geometry_witness:
  "(\<exists>pes. make_edges ex_utm_length ex_prep_nodes ex_segments = Inr pes \<and>
      prep_edge_pairing pes) \<and>
   (\<exists>ns es. specialize ex_difference ex_utm_length ex_nodes ex_edges ex_area = Inr (ns, es) \<and>
      edge_pairing es) \<and>
   edge_pairing ex_edges \<and>
   (\<exists>n es t G'. split_graph ex_lib ex_graph ex_target ex_edges = Inr (n, es, t, G') \<and>
      edge_pairing es)"
proof -
  have "case make_edges ex_utm_length ex_prep_nodes ex_segments of
          Inl e \<Rightarrow> False | Inr pes \<Rightarrow> True"
    by code_simp
  then obtain pes where 1: "make_edges ex_utm_length ex_prep_nodes ex_segments = Inr pes"
    by (auto split: sum.splits)
  have "case specialize ex_difference ex_utm_length ex_nodes ex_edges ex_area of
          Inl e \<Rightarrow> False | Inr r \<Rightarrow> True"
    by code_simp
  then obtain ns es where
    2: "specialize ex_difference ex_utm_length ex_nodes ex_edges ex_area = Inr (ns, es)"
    by (auto split: sum.splits)
  have 3: "edge_pairing ex_edges"
    by code_simp
  have "case split_graph ex_lib ex_graph ex_target ex_edges of
          Inl e \<Rightarrow> False | Inr r \<Rightarrow> True"
    by code_simp
  then obtain n es' t G' where
    4: "split_graph ex_lib ex_graph ex_target ex_edges = Inr (n, es', t, G')"
    by (auto split: sum.splits)
  from edge_pairing_same_geometry
         [of ex_utm_length ex_prep_nodes ex_segments pes ex_difference ex_utm_length
             ex_nodes ex_edges ex_area ns es ex_edges ex_lib ex_graph ex_target n es' t G']
       1 2 3 4
  show ?thesis by blast
qed

text \<open>
  The property as the specification words it fails on the code: the key-1 edge carries
  the coordinates of the key-0 edge in the same order.
\<close>

theorem edge_pairing_reversed_counterexample:
  "\<exists>pes. make_edges ex_utm_length ex_prep_nodes ex_segments = Inr pes \<and>
     \<not> prep_edge_pairing_reversed pes"
proof -
  have "make_edges ex_utm_length ex_prep_nodes ex_segments =
          Inr [\<lparr>prep_u = Some 0, prep_v = Some 1, prep_key = 0,
                prep_geometry = LineString [(0, 0), (1, 1)], prep_length = 2\<rparr>,
               \<lparr>prep_u = Some 1, prep_v = Some 0, prep_key = 1,
                prep_geometry = LineString [(0, 0), (1, 1)], prep_length = 2\<rparr>]"
    by (simp add: make_edges_def join_segment_def join_nodes_def coords_first_def
        coords_last_def ex_prep_nodes_def ex_segments_def ex_utm_length_def
        reversed_prep_edge_def)
  moreover have
    "\<not> prep_edge_pairing_reversed
         [\<lparr>prep_u = Some 0, prep_v = Some 1, prep_key = 0,
           prep_geometry = LineString [(0, 0), (1, 1)], prep_length = 2\<rparr>,
          \<lparr>prep_u = Some 1, prep_v = Some 0, prep_key = 1,
           prep_geometry = LineString [(0, 0), (1, 1)], prep_length = 2\<rparr>]"
    by (simp add: prep_edge_pairing_reversed_def)
  ultimately show ?thesis by blast
qed

section \<open>Edges inside the exclusion area\<close>

text \<open>
  Claim C4 asks that an edge lying wholly inside the exclusion area is dropped. The
  code filters the node table by emptiness and never the edge table. On the road
  wholly covered by the exclusion area both key-0 edges keep an empty geometry in the
  renumbered table, and the specializer then raises \<open>IndexError\<close> when \<open>make_nodes\<close>
  reads the first coordinate of the first of them.
\<close>

theorem specialize_covered_edge:
  "map edge_geometry
     (remapped_edges difference_covered ex_utm_length ex_nodes ex_edges ex_cover_all) =
     [LineString [], LineString []] \<and>
   specialize difference_covered ex_utm_length ex_nodes ex_edges ex_cover_all = Inl IndexError"
  by code_simp

section \<open>Properties of the splicer\<close>












lemma map_of_six:
  assumes "distinct [a, b, c, d, e, f]"
  shows "map_of [(f, vf), (e, ve), (d, vd), (c, vc), (b, vb), (a, va)] =
         (\<lambda>i. if i = a then Some va else if i = b then Some vb else if i = c then Some vc
               else if i = d then Some vd else if i = e then Some ve
               else if i = f then Some vf else None)"
  using assms by (auto simp: fun_eq_iff)




section \<open>Grouping in the geometry cleaner\<close>















section \<open>Properties of the request handler\<close>

lemma and_then_Lambda:
  "and_then m f = Inl (LambdaException st msg) \<Longrightarrow>
   m = Inl (LambdaException st msg) \<or> (\<exists>x. m = Inr x \<and> f x = Inl (LambdaException st msg))"
  by (auto simp: and_then_def split: sum.splits)

lemma lift_not_Lambda: "lift r \<noteq> Inl (LambdaException st msg)"
  by (auto simp: lift_def split: sum.splits)

lemma fetch_resources_status:
  "fetch_resources lg region rs = Inl (LambdaException st msg) \<Longrightarrow> st = 500"
  by (induction rs) (auto split: fetched.splits sum.splits)

lemma fetch_regions_status:
  "fetch_regions lg gs = Inl (LambdaException st msg) \<Longrightarrow> st = 500"
  by (induction gs) (auto split: sum.splits dest: fetch_resources_status)

lemma prefetch_status:
  "prefetch_geofences lg areas = Inl (LambdaException st msg) \<Longrightarrow> st = 500"
  by (auto simp: prefetch_geofences_def split: sum.splits dest: fetch_regions_status)

lemma resolve_arn_status:
  "resolve_arn geofences arn circle polygon = Inl (LambdaException st msg) \<Longrightarrow>
   st = 400 \<or> st = 500"
  by (auto simp: resolve_arn_def and_then_def lift_def split: sum.splits if_splits option.splits)

lemma resolve_area_status:
  "resolve_area E geofences area = Inl (LambdaException st msg) \<Longrightarrow> st = 400 \<or> st = 500"
  unfolding resolve_area_def
  by (auto simp: and_then_def lift_def split: sum.splits if_splits prod.splits
      dest: resolve_arn_status)

lemma resolve_areas_status:
  "resolve_areas E geofences areas = Inl (LambdaException st msg) \<Longrightarrow> st = 400 \<or> st = 500"
  by (induction areas) (auto simp: and_then_def split: sum.splits dest: resolve_area_status)

lemma get_exclusion_areas_status:
  "get_exclusion_areas E areas geofences = Inl (LambdaException st msg) \<Longrightarrow>
   st = 400 \<or> st = 500"
  by (auto simp: get_exclusion_areas_def and_then_def lift_def split: sum.splits
      dest: resolve_areas_status)


lemma and_then_Inr:
  "and_then m f = Inr y \<Longrightarrow> \<exists>x. m = Inr x \<and> f x = Inr y"
  by (auto simp: and_then_def split: sum.splits)

lemma handle_try_status:
  assumes "handle_try E event = Inl (LambdaException st msg)"
  shows "st = 400 \<or> st = 404 \<or> st = 500"
  using assms unfolding handle_try_def
  by (auto simp: lift_not_Lambda dest!: and_then_Lambda
      dest: prefetch_status get_exclusion_areas_status
      split: json.splits if_splits prod.splits option.splits)

lemma handle_try_ok:
  assumes "handle_try E event = Inr r"
  shows "statusCode r = 200"
  using assms unfolding handle_try_def
  by (auto dest!: and_then_Inr split: json.splits if_splits prod.splits option.splits)



text \<open>
  Claim C7, as the code has it. The \<open>try\<close> block of \<open>handle\<close> ends in one of three
  ways. When it raises a \<open>LambdaException\<close>, \<open>handle\<close> returns the error envelope with
  the status and the message of the exception, and the status is 400, 404 or 500.
  When it raises any other exception, \<open>handle\<close> has no clause for it: the exception
  leaves \<open>handle\<close>, and no envelope with status 500 is made of it. When it returns,
  \<open>handle\<close> returns its envelope, with status 200.
\<close>

theorem handle_catches_LambdaException_only:
  "(\<forall>e. handle_try E event = Inl (Uncaught e) \<longrightarrow> handle E event = Inl e) \<and>
   (\<forall>status message. handle_try E event = Inl (LambdaException status message) \<longrightarrow>
      handle E event = Inr (error_response E status message) \<and>
      (status = 400 \<or> status = 404 \<or> status = 500)) \<and>
   (\<forall>r. handle_try E event = Inr r \<longrightarrow> handle E event = Inr r \<and> statusCode r = 200)"
  by (auto simp: handle_def dest: handle_try_status handle_try_ok)

text \<open>
  The claim as the specification words it fails: on an event whose body is \<open>None\<close>,
  \<open>json.loads\<close> raises \<open>TypeError\<close> and \<open>handle\<close> lets it through, whatever the
  collaborators are.
\<close>

theorem handle_escape_counterexample:
  "\<forall>E. handle E (JObj [(''body'', JNull)]) = Inl TypeError"
  by (simp add: handle_def handle_try_def and_then_def lift_def)


theorem handle_catches_LambdaException_only_witness:
  "handle ex_env (JObj [(''body'', JNull)]) = Inl TypeError \<and>
   handle ex_env (ex_event [ex_area_both]) = Inr (error_response ex_env 400 only_one_message) \<and>
   handle ex_env (ex_event []) =
     Inr \<lparr>statusCode = 200,
          headers = [(''Access-Control-Allow-Origin'', ''*''),
                     (''Content-Type'', ''application/geo+json'')],
          body = ''{}''\<rparr>"
proof -
  have a: "handle_try ex_env (JObj [(''body'', JNull)]) = Inl (Uncaught TypeError)"
    by (simp add: handle_try_def and_then_def lift_def)
  have b: "handle_try ex_env (ex_event [ex_area_both]) =
             Inl (LambdaException 400 only_one_message)"
    by code_simp
  have c: "handle_try ex_env (ex_event []) =
     Inr \<lparr>statusCode = 200,
          headers = [(''Access-Control-Allow-Origin'', ''*''),
                     (''Content-Type'', ''application/geo+json'')],
          body = ''{}''\<rparr>"
    by code_simp
  from a b c
    handle_catches_LambdaException_only [of ex_env "JObj [(''body'', JNull)]"]
    handle_catches_LambdaException_only [of ex_env "ex_event [ex_area_both]"]
    handle_catches_LambdaException_only [of ex_env "ex_event []"]
  show ?thesis by blast
qed

lemma resolve_area_count:
  assumes "area_values bad = Inr (circle, polygon, arn)"
    and "length (filter truthy [circle, polygon, arn]) \<noteq> 1"
  shows "resolve_area E geofences bad = Inl (LambdaException 400 only_one_message)"
  using assms by (simp add: resolve_area_def and_then_def lift_def)

lemma resolve_areas_first_bad:
  assumes "\<forall>a \<in> set pre. \<exists>gs. resolve_area E geofences a = Inr gs"
    and "resolve_area E geofences bad = Inl f"
  shows "resolve_areas E geofences (pre @ bad # post) = Inl f"
  using assms by (induction pre) (auto simp: and_then_def)

text \<open>
  Claim C8, as the code has it. The body of the event parses to a request with an
  origin and a destination that are points, the geofences of its areas are fetched
  without failure, and in the list of its areas every area before the area \<open>bad\<close>
  resolves without failure, while \<open>bad\<close> has none or more than one true value among
  \<open>Circle\<close>, \<open>Polygon\<close> and \<open>Arn\<close>. Then \<open>handle\<close> returns status 400 with exactly the
  error \<open>Only one of {Circle, Polygon, Arn} may be provided per Area.\<close>, whatever the
  graph, its tables and the geometric operations are: nothing of the graph is read.
\<close>

theorem invalid_area_response:
  assumes "getitem event ''body'' = Inr (JStr t)"
    and "json_loads E t = Inr payload"
    and "getitem payload ''Origin'' = Inr origin_json"
    and "make_point E origin_json = Inr origin"
    and "getitem payload ''Destination'' = Inr destination_json"
    and "make_point E destination_json = Inr destination"
    and "get_default payload ''Avoid'' (JObj []) = Inr avoid"
    and "get_default avoid ''Areas'' (JArr []) = Inr areas"
    and "prefetch_geofences (list_geofences E) areas = Inr geofences"
    and "iterate areas = Inr (pre @ bad # post)"
    and "\<forall>a \<in> set pre. \<exists>gs. resolve_area E geofences a = Inr gs"
    and "area_values bad = Inr (circle, polygon, arn)"
    and "length (filter truthy [circle, polygon, arn]) \<noteq> 1"
  shows "handle_try E event = Inl (LambdaException 400 only_one_message) \<and>
         handle E event =
           Inr \<lparr>statusCode = 400,
                headers = [(''Access-Control-Allow-Origin'', ''*'')],
                body = ''{\"Error\": \"Only one of {Circle, Polygon, Arn} may be provided per Area.\"}''\<rparr>"
proof -
  have "resolve_areas E geofences (pre @ bad # post) =
          Inl (LambdaException 400 only_one_message)"
    using assms(11) resolve_area_count [OF assms(12,13)] by (rule resolve_areas_first_bad)
  then have g: "get_exclusion_areas E areas geofences =
          Inl (LambdaException 400 only_one_message)"
    using assms(10) by (simp add: get_exclusion_areas_def and_then_def lift_def)
  have t: "handle_try E event = Inl (LambdaException 400 only_one_message)"
    using assms(1-9) g by (simp add: handle_try_def and_then_def lift_def)
  have "json_dumps fr (JObj [(''Error'', JStr only_one_message)]) =
      ''{\"Error\": \"Only one of {Circle, Polygon, Arn} may be provided per Area.\"}''" for fr
    by (simp add: only_one_message_def dumps_string_def escape_char_def)
  with t show ?thesis
    by (simp add: handle_def error_response_def)
qed


theorem invalid_area_response_witness:
  "handle ex_env (ex_event [ex_area_both]) =
     Inr \<lparr>statusCode = 400,
          headers = [(''Access-Control-Allow-Origin'', ''*'')],
          body = ''{\"Error\": \"Only one of {Circle, Polygon, Arn} may be provided per Area.\"}''\<rparr>"
proof -
  let ?payload = "ex_payload [ex_area_both]"
  have 1: "getitem (ex_event [ex_area_both]) ''body'' =
             Inr (JStr (json_dumps ex_float_repr ?payload))"
    by (simp add: ex_event_def)
  have 2: "json_loads ex_env (json_dumps ex_float_repr ?payload) = Inr ?payload"
    by code_simp
  have 3: "getitem ?payload ''Origin'' = Inr (JArr [JInt 0, JInt 0])"
    by (simp add: ex_payload_def)
  have 4: "make_point ex_env (JArr [JInt 0, JInt 0]) = Inr (Point (Some (0, 0)))"
    by (simp add: ex_env_def)
  have 5: "getitem ?payload ''Destination'' = Inr (JArr [JInt 2, JInt 0])"
    by (simp add: ex_payload_def)
  have 6: "make_point ex_env (JArr [JInt 2, JInt 0]) = Inr (Point (Some (2, 0)))"
    by (simp add: ex_env_def)
  have 7: "get_default ?payload ''Avoid'' (JObj []) =
             Inr (JObj [(''Areas'', JArr [ex_area_both])])"
    by (simp add: ex_payload_def)
  have 8: "get_default (JObj [(''Areas'', JArr [ex_area_both])]) ''Areas'' (JArr []) =
             Inr (JArr [ex_area_both])"
    by simp
  have 9: "prefetch_geofences (list_geofences ex_env) (JArr [ex_area_both]) = Inr []"
    by code_simp
  have 10: "iterate (JArr [ex_area_both]) = Inr ([] @ ex_area_both # [])"
    by simp
  have 11: "\<forall>a \<in> set []. \<exists>gs. resolve_area ex_env [] a = Inr gs"
    by simp
  have 12: "area_values ex_area_both =
      Inr (JObj [(''Center'', JArr [JInt 1, JInt 0]), (''Radius'', JInt 5)],
           JArr [JArr [JArr [JInt 0, JInt 0], JArr [JInt 1, JInt 0],
                       JArr [JInt 1, JInt 1], JArr [JInt 0, JInt 0]]],
           JNull)"
    by (simp add: area_values_def ex_area_both_def)
  have 13: "length (filter truthy
      [JObj [(''Center'', JArr [JInt 1, JInt 0]), (''Radius'', JInt 5)],
       JArr [JArr [JArr [JInt 0, JInt 0], JArr [JInt 1, JInt 0],
                   JArr [JInt 1, JInt 1], JArr [JInt 0, JInt 0]]],
       JNull]) \<noteq> 1"
    by simp
  from invalid_area_response [OF 1 2 3 4 5 6 7 8 9 10 11 12 13]
  show ?thesis by simp
qed

text \<open>
  The claim as the specification words it fails: the areas are checked in order, and
  the failure of an earlier area is the answer. Here the second area has both a circle
  and a polygon, and the response carries the error of the first area, whose circle
  has no center.
\<close>

theorem invalid_area_not_first_counterexample:
  "(\<exists>circle polygon arn. area_values ex_area_both = Inr (circle, polygon, arn) \<and>
      length (filter truthy [circle, polygon, arn]) = 2) \<and>
   handle ex_env (ex_event [ex_area_no_center, ex_area_both]) =
     Inr \<lparr>statusCode = 400,
          headers = [(''Access-Control-Allow-Origin'', ''*'')],
          body = ''{\"Error\": \"Invalid Circle area: 'Center'\"}''\<rparr>"
proof -
  have "area_values ex_area_both =
      Inr (JObj [(''Center'', JArr [JInt 1, JInt 0]), (''Radius'', JInt 5)],
           JArr [JArr [JArr [JInt 0, JInt 0], JArr [JInt 1, JInt 0],
                       JArr [JInt 1, JInt 1], JArr [JInt 0, JInt 0]]],
           JNull)"
    by (simp add: area_values_def ex_area_both_def)
  then have "\<exists>circle polygon arn. area_values ex_area_both = Inr (circle, polygon, arn) \<and>
      length (filter truthy [circle, polygon, arn]) = 2"
    by simp
  moreover have "handle ex_env (ex_event [ex_area_no_center, ex_area_both]) =
     Inr \<lparr>statusCode = 400,
          headers = [(''Access-Control-Allow-Origin'', ''*'')],
          body = ''{\"Error\": \"Invalid Circle area: 'Center'\"}''\<rparr>"
    by code_simp
  ultimately show ?thesis by blast
qed

section \<open>Properties of the vertex clusterer\<close>












end
